theory Spec2Isabelle
  imports Main "HOL-Library.AList"
begin

section \<open>JavaScript values used by the server\<close>

text \<open>
  The server (server.ts) keeps its state in one \<^verbatim>\<open>Map\<close> (the rate limiter) and three
  plain objects created by the literal \<^verbatim>\<open>{}\<close> and used as dictionaries
  (\<^verbatim>\<open>transports\<close>, \<^verbatim>\<open>oauthClients\<close>, \<^verbatim>\<open>authCodes\<close>). Request fields may be
  missing: a field is a \<open>string option\<close>, \<open>None\<close> standing for \<^verbatim>\<open>undefined\<close>. A string is
  the list of the bytes of its UTF-8 encoding, which is what \<^verbatim>\<open>Buffer.from\<close> computes; a
  string is empty exactly when its encoding is. Timestamps (\<^verbatim>\<open>Date.now()\<close>, milliseconds)
  and counters are unbounded integers; each handler reads the clock once.
\<close>

type_synonym buffer = string

text \<open>Truthiness of a \<^verbatim>\<open>string | undefined\<close>: \<^verbatim>\<open>undefined\<close> and \<^verbatim>\<open>''\<close> are falsy.\<close>

definition truthy :: "string option \<Rightarrow> bool" where
  "truthy v = (case v of None \<Rightarrow> False | Some s \<Rightarrow> s \<noteq> [])"

text \<open>A value used as a property key or inside a template string: \<^verbatim>\<open>undefined\<close> becomes
  the text \<^verbatim>\<open>undefined\<close>.\<close>

definition toString :: "string option \<Rightarrow> string" where
  "toString v = (case v of None \<Rightarrow> ''undefined'' | Some s \<Rightarrow> s)"

section \<open>Objects used as dictionaries\<close>

text \<open>
  \<^verbatim>\<open>transports\<close>, \<^verbatim>\<open>oauthClients\<close> and \<^verbatim>\<open>authCodes\<close> are objects created by \<^verbatim>\<open>{}\<close>: the
  own properties, in insertion order, are an association list. A read \<^verbatim>\<open>obj[k]\<close> that
  finds no own property continues in \<^verbatim>\<open>Object.prototype\<close>, so for the twelve names below
  it yields an inherited value (a function, or \<^verbatim>\<open>Object.prototype\<close> itself for
  \<^verbatim>\<open>__proto__\<close>): a truthy value on which \<^verbatim>\<open>expires\<close> and \<^verbatim>\<open>handleRequest\<close> are
  \<^verbatim>\<open>undefined\<close>. The keys the server writes are results of \<^verbatim>\<open>randomUUID()\<close>, or a
  \<^verbatim>\<open>client_id\<close> whose read was falsy; for such keys \<^verbatim>\<open>obj[k] = v\<close> creates or replaces an
  own property (\<open>AList.update\<close>). \<^verbatim>\<open>delete obj[k]\<close> removes an own property and does
  nothing else (\<open>AList.delete\<close>). \<^verbatim>\<open>rateLimitState\<close> is a \<^verbatim>\<open>Map\<close>, which has no
  inherited keys.
\<close>

type_synonym 'a js_object = "(string \<times> 'a) list"

definition objectPrototypeKeys :: "string list" where
  "objectPrototypeKeys =
     [''constructor'', ''__defineGetter__'', ''__defineSetter__'', ''hasOwnProperty'',
      ''__lookupGetter__'', ''__lookupSetter__'', ''isPrototypeOf'', ''propertyIsEnumerable'',
      ''toString'', ''valueOf'', ''__proto__'', ''toLocaleString'']"

datatype 'a property = Undefined | Own 'a | Inherited

definition get_property :: "'a js_object \<Rightarrow> string \<Rightarrow> 'a property" where
  "get_property obj k =
     (case map_of obj k of
        Some v \<Rightarrow> Own v
      | None \<Rightarrow> if k \<in> set objectPrototypeKeys then Inherited else Undefined)"

text \<open>What \<^verbatim>\<open>randomUUID()\<close> returns: 36 characters, lower-case hexadecimal digits in five
  groups separated by \<^verbatim>\<open>-\<close> at positions 8, 13, 18 and 23.\<close>

definition isHex :: "string \<Rightarrow> bool" where
  "isHex s = list_all (\<lambda>c. c \<in> set ''0123456789abcdef'') s"

definition isUUID :: "string \<Rightarrow> bool" where
  "isUUID s \<longleftrightarrow> length s = 36
     \<and> isHex (take 8 s) \<and> s ! 8 = CHR ''-''
     \<and> isHex (take 4 (drop 9 s)) \<and> s ! 13 = CHR ''-''
     \<and> isHex (take 4 (drop 14 s)) \<and> s ! 18 = CHR ''-''
     \<and> isHex (take 4 (drop 19 s)) \<and> s ! 23 = CHR ''-''
     \<and> isHex (drop 24 s)"

section \<open>Configuration, state, requests and responses\<close>

record config =
  OAUTH_TOKEN_EXPIRES_IN :: int
  RATE_LIMIT_MAX_ATTEMPTS :: int
  RATE_LIMIT_WINDOW_MS :: int
  authPassword :: "string option"

text \<open>The defaults: 7 days, 5 attempts, 15 minutes; \<^verbatim>\<open>MCP_AUTH_PASSWORD\<close> is a parameter.\<close>

definition default_config :: "string option \<Rightarrow> config" where
  "default_config pw =
     \<lparr>OAUTH_TOKEN_EXPIRES_IN = 604800, RATE_LIMIT_MAX_ATTEMPTS = 5,
      RATE_LIMIT_WINDOW_MS = 900000, authPassword = pw\<rparr>"

record RateLimitEntry =
  attempts :: int
  lockoutUntil :: int

record OAuthClient =
  client_id :: string
  client_secret :: "string option"
  redirect_uris :: "string list"
  client_name :: string
  created_at :: int

record AuthCode =
  ac_client_id :: "string option"
  ac_redirect_uri :: "string option"
  code_challenge :: "string option"
  code_challenge_method :: "string option"
  expires :: int

text \<open>
  A transport is an object of the MCP SDK; the record holds its \<^verbatim>\<open>sessionId\<close> and what its
  methods do when called: whether \<^verbatim>\<open>handleRequest\<close> rejects (and whether the response
  headers were already sent then), whether \<^verbatim>\<open>close\<close> invokes the \<^verbatim>\<open>onclose\<close> callback
  and whether it rejects.
\<close>

datatype sdk_result = Resolves | Rejects bool

record transport =
  sessionId :: "string option"
  handleRequest_result :: sdk_result
  close_calls_onclose :: bool
  close_rejects :: bool

record server =
  rateLimitState :: "(string \<times> RateLimitEntry) list"
  oauthClients :: "OAuthClient js_object"
  authCodes :: "AuthCode js_object"
  transports :: "transport js_object"

definition empty_server :: server where
  "empty_server = \<lparr>rateLimitState = [], oauthClients = [], authCodes = [], transports = []\<rparr>"

record authorize_request =
  req_redirect_uri :: "string option"
  req_state :: "string option"
  req_client_id :: "string option"
  req_code_challenge :: "string option"
  req_code_challenge_method :: "string option"
  req_password :: "string option"
  req_ip :: "string option"
  req_remoteAddress :: "string option"

record token_request =
  tok_code :: "string option"
  tok_grant_type :: "string option"
  tok_client_id :: "string option"
  tok_client_secret :: "string option"

text \<open>
  Response bodies: the token document, an OAuth error document, the login page (the
  arguments of \<^verbatim>\<open>getLoginPage\<close>), a JSON-RPC error and the registration document.
  \<open>Redirect\<close> is \<^verbatim>\<open>res.redirect(url)\<close>; \<open>Uncaught\<close> is an exception that leaves the handler.
\<close>

datatype body =
    TokenJson string string int
  | ErrorJson string string
  | LoginPage "string option" "string option" "string option" "string option"
      "string option" "string option"
  | JsonRpcError int string
  | ClientJson string int "string list" string string

datatype js_error = RangeError | TypeError

datatype response =
    Response nat body
  | Redirect string
  | Uncaught js_error

section \<open>Timing-safe password comparison\<close>

text \<open>\<^verbatim>\<open>crypto.timingSafeEqual\<close>: throws a RangeError unless both buffers have the same byte
  length, and otherwise tells whether they are equal.\<close>

definition timingSafeEqual :: "buffer \<Rightarrow> buffer \<Rightarrow> js_error + bool" where
  "timingSafeEqual a b = (if length a \<noteq> length b then Inl RangeError else Inr (a = b))"

text \<open>\<^verbatim>\<open>Buffer.alloc(n)\<close> is \<open>n\<close> zero bytes; \<^verbatim>\<open>src.copy(target)\<close> overwrites the start of
  \<open>target\<close> with as many bytes of \<open>src\<close> as fit.\<close>

definition Buffer_alloc :: "nat \<Rightarrow> buffer" where
  "Buffer_alloc n = replicate n (CHR 0x00)"

definition Buffer_copy :: "buffer \<Rightarrow> buffer \<Rightarrow> buffer" where
  "Buffer_copy src target = take (length target) src @ drop (length src) target"

text \<open>
  \<^verbatim>\<open>safeComparePasswords(provided, expected)\<close>. The result is paired with the list of the
  calls to \<^verbatim>\<open>timingSafeEqual\<close> the function makes (the arguments of each call), so that
  "no comparison is performed" and "a comparison is still performed" can be told apart.
\<close>

definition safeComparePasswords ::
  "string option \<Rightarrow> string option \<Rightarrow> (buffer \<times> buffer) list \<times> (js_error + bool)" where
  "safeComparePasswords provided expected =
     (if \<not> truthy provided \<or> \<not> truthy expected then ([], Inr False)
      else
        let providedBuf = the provided; expectedBuf = the expected in
        if length providedBuf \<noteq> length expectedBuf then
          (let paddedProvided = Buffer_copy providedBuf (Buffer_alloc (length expectedBuf)) in
           case timingSafeEqual paddedProvided expectedBuf of
             Inl e \<Rightarrow> ([(paddedProvided, expectedBuf)], Inl e)
           | Inr _ \<Rightarrow> ([(paddedProvided, expectedBuf)], Inr False))
        else ([(providedBuf, expectedBuf)], timingSafeEqual providedBuf expectedBuf))"

section \<open>Rate limiting\<close>

text \<open>Decimal digits of a natural number, as a template string prints an integer (below
  \<open>10\<^sup>2\<^sup>1\<close>, which the numbers of seconds here are).\<close>

fun decimal :: "nat \<Rightarrow> string" where
  "decimal n =
     (if n < 10 then [''0123456789'' ! n]
      else decimal (n div 10) @ [''0123456789'' ! (n mod 10)])"

declare decimal.simps [simp del]

type_synonym rate_limit_map = "(string \<times> RateLimitEntry) list"

text \<open>\<^verbatim>\<open>checkRateLimit(ip)\<close>: the error message if the address is locked out, and the map,
  from which an expired lockout is removed. \<^verbatim>\<open>Math.ceil(d / 1000)\<close> of an integer \<open>d\<close> is
  \<open>(d + 999) div 1000\<close>; it is positive here, because the lockout lies in the future.\<close>

definition checkRateLimit ::
  "config \<Rightarrow> int \<Rightarrow> string \<Rightarrow> rate_limit_map \<Rightarrow> string option \<times> rate_limit_map" where
  "checkRateLimit cfg now ip rl =
     (case map_of rl ip of
        None \<Rightarrow> (None, rl)
      | Some st \<Rightarrow>
          if lockoutUntil st > now then
            (let remainingSeconds = (lockoutUntil st - now + 999) div 1000 in
             (Some (''Too many failed attempts. Try again in '' @ decimal (nat remainingSeconds)
                    @ '' seconds.''), rl))
          else if lockoutUntil st \<le> now \<and> attempts st \<ge> RATE_LIMIT_MAX_ATTEMPTS cfg then
            (None, AList.delete ip rl)
          else (None, rl))"

text \<open>\<^verbatim>\<open>recordFailedAttempt(ip)\<close>: whether the address is now locked out, and the map.\<close>

definition recordFailedAttempt ::
  "config \<Rightarrow> int \<Rightarrow> string \<Rightarrow> rate_limit_map \<Rightarrow> bool \<times> rate_limit_map" where
  "recordFailedAttempt cfg now ip rl =
     (let st = (case map_of rl ip of None \<Rightarrow> \<lparr>attempts = 0, lockoutUntil = 0\<rparr> | Some st \<Rightarrow> st);
          st1 = st\<lparr>attempts := attempts st + 1\<rparr>;
          st2 = (if attempts st1 \<ge> RATE_LIMIT_MAX_ATTEMPTS cfg
                 then st1\<lparr>lockoutUntil := now + RATE_LIMIT_WINDOW_MS cfg\<rparr> else st1)
      in (attempts st2 \<ge> RATE_LIMIT_MAX_ATTEMPTS cfg, AList.update ip st2 rl))"

definition clearRateLimit :: "string \<Rightarrow> rate_limit_map \<Rightarrow> rate_limit_map" where
  "clearRateLimit ip rl = AList.delete ip rl"


section \<open>The OAuth endpoints\<close>

text \<open>Dynamic client registration (\<^verbatim>\<open>handleClientRegistration\<close>); \<open>uuid\<close> is the result of
  \<^verbatim>\<open>randomUUID()\<close>, \<open>None\<close> for \<^verbatim>\<open>redirect_uris\<close> is a missing field or one that is not an
  array.\<close>

definition handleClientRegistration ::
  "int \<Rightarrow> string \<Rightarrow> string list option \<Rightarrow> string option \<Rightarrow> server \<Rightarrow> response \<times> server" where
  "handleClientRegistration now uuid uris name srv =
     (case uris of
        None \<Rightarrow> (Response 400 (ErrorJson ''invalid_client_metadata'' ''redirect_uris is required''), srv)
      | Some us \<Rightarrow>
          if us = [] then
            (Response 400 (ErrorJson ''invalid_client_metadata'' ''redirect_uris is required''), srv)
          else
            let client = \<lparr>client_id = uuid, client_secret = None, redirect_uris = us,
                          client_name = (if truthy name then the name else ''Unknown Client''),
                          created_at = now\<rparr>
            in (Response 201 (ClientJson uuid (now div 1000) us (client_name client) ''none''),
                srv\<lparr>oauthClients := AList.update uuid client (oauthClients srv)\<rparr>))"

definition redirect_url :: "authorize_request \<Rightarrow> string \<Rightarrow> string" where
  "redirect_url req code =
     toString (req_redirect_uri req) @ ''?code='' @ code @ ''&state='' @ toString (req_state req)"

definition getLoginPage :: "string option \<Rightarrow> authorize_request \<Rightarrow> body" where
  "getLoginPage err req =
     LoginPage err (req_redirect_uri req) (req_state req) (req_client_id req)
       (req_code_challenge req) (req_code_challenge_method req)"

text \<open>\<^verbatim>\<open>app.get('/oauth/authorize')\<close>; \<open>uuid\<close> is the result of \<^verbatim>\<open>randomUUID()\<close>.\<close>

definition get_oauth_authorize ::
  "config \<Rightarrow> int \<Rightarrow> string \<Rightarrow> authorize_request \<Rightarrow> server \<Rightarrow> response \<times> server" where
  "get_oauth_authorize cfg now uuid req srv =
     (if \<not> truthy (authPassword cfg) then
        (Redirect (redirect_url req uuid),
         srv\<lparr>authCodes := AList.update uuid
                \<lparr>ac_client_id = req_client_id req, ac_redirect_uri = req_redirect_uri req,
                 code_challenge = None, code_challenge_method = None,
                 expires = now + 60000\<rparr> (authCodes srv)\<rparr>)
      else (Response 200 (getLoginPage None req), srv))"

definition clientIp :: "authorize_request \<Rightarrow> string" where
  "clientIp req =
     (if truthy (req_ip req) then the (req_ip req)
      else if truthy (req_remoteAddress req) then the (req_remoteAddress req)
      else ''unknown'')"

text \<open>
  \<^verbatim>\<open>app.post('/oauth/authorize')\<close>: the calls to \<^verbatim>\<open>timingSafeEqual\<close> made while the
  request is handled, the response and the state. \<open>post_oauth_authorize\<close> is the response
  and the state alone.
\<close>

definition post_oauth_authorize_traced ::
  "config \<Rightarrow> int \<Rightarrow> string \<Rightarrow> authorize_request \<Rightarrow> server
   \<Rightarrow> (buffer \<times> buffer) list \<times> response \<times> server" where
  "post_oauth_authorize_traced cfg now uuid req srv =
     (case checkRateLimit cfg now (clientIp req) (rateLimitState srv) of
        (rateLimitError, rl) \<Rightarrow>
          if truthy rateLimitError then
            ([], Response 429 (getLoginPage rateLimitError req), srv\<lparr>rateLimitState := rl\<rparr>)
          else
            (case safeComparePasswords (req_password req) (authPassword cfg) of
               (calls, Inl e) \<Rightarrow> (calls, Uncaught e, srv\<lparr>rateLimitState := rl\<rparr>)
             | (calls, Inr ok) \<Rightarrow>
                 if \<not> ok then
                   (calls, Response 401 (getLoginPage (Some ''Invalid password'') req),
                    srv\<lparr>rateLimitState := snd (recordFailedAttempt cfg now (clientIp req) rl)\<rparr>)
                 else
                   (calls, Redirect (redirect_url req uuid),
                    srv\<lparr>rateLimitState := clearRateLimit (clientIp req) rl,
                        authCodes := AList.update uuid
                          \<lparr>ac_client_id = req_client_id req, ac_redirect_uri = req_redirect_uri req,
                           code_challenge = req_code_challenge req,
                           code_challenge_method = req_code_challenge_method req,
                           expires = now + 60000\<rparr> (authCodes srv)\<rparr>)))"

definition post_oauth_authorize ::
  "config \<Rightarrow> int \<Rightarrow> string \<Rightarrow> authorize_request \<Rightarrow> server \<Rightarrow> response \<times> server" where
  "post_oauth_authorize cfg now uuid req srv = snd (post_oauth_authorize_traced cfg now uuid req srv)"

definition invalid_grant :: response where
  "invalid_grant =
     Response 400 (ErrorJson ''invalid_grant'' ''Invalid or expired authorization code'')"

definition access_token :: "config \<Rightarrow> string \<Rightarrow> response" where
  "access_token cfg uuid = Response 200 (TokenJson uuid ''Bearer'' (OAUTH_TOKEN_EXPIRES_IN cfg))"

text \<open>
  \<^verbatim>\<open>app.post('/oauth/token')\<close>; \<open>uuid\<close> is the result of \<^verbatim>\<open>randomUUID()\<close>. An inherited
  value read from \<^verbatim>\<open>oauthClients\<close> is truthy, so no client is registered under such a name.
  An inherited value read from \<^verbatim>\<open>authCodes\<close> is truthy and its \<^verbatim>\<open>expires\<close> is
  \<^verbatim>\<open>undefined\<close>, which is not less than any number: the code is accepted.
\<close>

definition post_oauth_token ::
  "config \<Rightarrow> int \<Rightarrow> string \<Rightarrow> token_request \<Rightarrow> server \<Rightarrow> response \<times> server" where
  "post_oauth_token cfg now uuid req srv =
     (if tok_grant_type req = Some ''client_credentials'' then
        (access_token cfg uuid,
         if truthy (tok_client_id req)
            \<and> get_property (oauthClients srv) (toString (tok_client_id req)) = Undefined
         then srv\<lparr>oauthClients := AList.update (toString (tok_client_id req))
                 \<lparr>client_id = toString (tok_client_id req), client_secret = tok_client_secret req,
                  redirect_uris = [], client_name = ''Auto-registered Client'',
                  created_at = now\<rparr> (oauthClients srv)\<rparr>
         else srv)
      else if tok_grant_type req = Some ''authorization_code'' then
        (let code = toString (tok_code req);
             srv' = srv\<lparr>authCodes := AList.delete code (authCodes srv)\<rparr>
         in case get_property (authCodes srv) code of
              Undefined \<Rightarrow> (invalid_grant, srv')
            | Own authCode \<Rightarrow>
                if expires authCode < now then (invalid_grant, srv')
                else (access_token cfg uuid, srv')
            | Inherited \<Rightarrow> (access_token cfg uuid, srv'))
      else
        (Response 400 (ErrorJson ''unsupported_grant_type''
           ''Supported grant types: authorization_code, client_credentials''), srv))"

text \<open>Whether a response of the token endpoint carries an access token.\<close>

fun succeeds :: "response \<Rightarrow> bool" where
  "succeeds (Response st (TokenJson tok ty ex)) = (st = 200)"
| "succeeds r = False"

section \<open>Bearer authentication of the MCP routes\<close>

definition startsWith :: "string \<Rightarrow> string \<Rightarrow> bool" where
  "startsWith s p = (take (length p) s = p)"

datatype middleware_result = Rejected response | Next string

text \<open>\<^verbatim>\<open>createAuthMiddleware()\<close> applied to the \<^verbatim>\<open>Authorization\<close> header: a response, or
  \<^verbatim>\<open>next()\<close> with the value stored in \<^verbatim>\<open>req.app.locals.auth.token\<close>.\<close>

definition createAuthMiddleware :: "string option \<Rightarrow> middleware_result" where
  "createAuthMiddleware authHeader =
     (if \<not> truthy authHeader \<or> \<not> startsWith (the authHeader) ''Bearer '' then
        Rejected (Response 401 (ErrorJson ''unauthorized'' ''Bearer token required''))
      else
        let token = drop 7 (the authHeader) in
        if token = [] then
          Rejected (Response 401 (ErrorJson ''invalid_token'' ''Invalid or expired token''))
        else Next (take 8 token @ ''...''))"

fun error_code :: "middleware_result \<Rightarrow> string option" where
  "error_code (Rejected (Response st (ErrorJson e d))) = Some e"
| "error_code r = None"

section \<open>Sessions\<close>

text \<open>
  What a request to \<^verbatim>\<open>/mcp\<close> results in: a transport handled it (\<^verbatim>\<open>handleRequest\<close>
  resolved), a transport failed after it had sent the response headers, or the handler
  itself replied.
\<close>

datatype mcp_outcome = HandledBy transport | AbortedBy transport | Reply response

definition internal_error :: response where
  "internal_error = Response 500 (JsonRpcError (- 32603) ''Internal server error'')"

definition no_valid_session :: response where
  "no_valid_session = Response 400 (JsonRpcError (- 32000) ''Bad Request: No valid session ID'')"

text \<open>\<^verbatim>\<open>await transport.handleRequest(req, res, req.body)\<close> inside the handler's
  \<^verbatim>\<open>try\<close>/\<^verbatim>\<open>catch\<close>.\<close>

definition handleRequest :: "transport \<Rightarrow> mcp_outcome" where
  "handleRequest t =
     (case handleRequest_result t of
        Resolves \<Rightarrow> HandledBy t
      | Rejects headersSent \<Rightarrow> if headersSent then AbortedBy t else Reply internal_error)"

text \<open>
  \<^verbatim>\<open>mcpPostHandler\<close>. \<open>isInitialize\<close> is \<^verbatim>\<open>isInitializeRequest(req.body)\<close>. \<open>newT\<close> is the
  transport the handler creates, as it is after handling the request: its \<^verbatim>\<open>sessionId\<close> is
  set exactly when the transport confirmed the initialization, generated the id with
  \<^verbatim>\<open>sessionIdGenerator\<close> and called \<^verbatim>\<open>onsessioninitialized\<close> with it, which stores the
  transport in the registry. \<open>connect_rejects\<close> tells whether \<^verbatim>\<open>server.connect\<close> rejects.
  Calling \<^verbatim>\<open>handleRequest\<close> on an inherited value is a TypeError, which the handler
  catches.
\<close>

definition mcpPostHandler ::
  "transport \<Rightarrow> bool \<Rightarrow> string option \<Rightarrow> bool \<Rightarrow> server \<Rightarrow> mcp_outcome \<times> server" where
  "mcpPostHandler newT connect_rejects sid isInitialize srv =
     (if truthy sid \<and> get_property (transports srv) (toString sid) \<noteq> Undefined then
        (case get_property (transports srv) (toString sid) of
           Own t \<Rightarrow> (handleRequest t, srv)
         | _ \<Rightarrow> (Reply internal_error, srv))
      else if \<not> truthy sid \<and> isInitialize then
        (if connect_rejects then (Reply internal_error, srv)
         else
           (handleRequest newT,
            if truthy (sessionId newT)
            then srv\<lparr>transports := AList.update (toString (sessionId newT)) newT (transports srv)\<rparr>
            else srv))
      else (Reply no_valid_session, srv))"

text \<open>A route of \<^verbatim>\<open>/mcp\<close>: with \<^verbatim>\<open>--oauth\<close> the middleware runs before the handler.\<close>

definition mcp_route ::
  "bool \<Rightarrow> string option \<Rightarrow> (server \<Rightarrow> mcp_outcome \<times> server) \<Rightarrow> server \<Rightarrow> mcp_outcome \<times> server" where
  "mcp_route useOAuth authHeader handler srv =
     (if useOAuth then
        (case createAuthMiddleware authHeader of
           Rejected r \<Rightarrow> (Reply r, srv)
         | Next a \<Rightarrow> handler srv)
      else handler srv)"

text \<open>The \<^verbatim>\<open>onclose\<close> callback of a transport.\<close>

definition onclose :: "transport \<Rightarrow> transport js_object \<Rightarrow> transport js_object" where
  "onclose t reg =
     (if truthy (sessionId t) \<and> get_property reg (toString (sessionId t)) \<noteq> Undefined
      then AList.delete (toString (sessionId t)) reg else reg)"

text \<open>
  The loop of \<^verbatim>\<open>shutdown\<close>: \<^verbatim>\<open>for (const sessionId in transports)\<close> visits the own keys
  in order, skipping a key deleted before its turn. The result is the registry, the keys
  whose transport's \<^verbatim>\<open>close\<close> was called, and the keys for which an error was logged.
\<close>

fun shutdown_loop ::
  "string list \<Rightarrow> transport js_object \<Rightarrow> string list \<Rightarrow> string list
   \<Rightarrow> transport js_object \<times> string list \<times> string list" where
  "shutdown_loop [] reg closed errors = (reg, closed, errors)"
| "shutdown_loop (k # ks) reg closed errors =
     (case map_of reg k of
        None \<Rightarrow> shutdown_loop ks reg closed errors
      | Some t \<Rightarrow>
          let reg1 = (if close_calls_onclose t then onclose t reg else reg) in
          if close_rejects t then shutdown_loop ks reg1 (closed @ [k]) (errors @ [k])
          else shutdown_loop ks (AList.delete k reg1) (closed @ [k]) errors)"

definition shutdown :: "server \<Rightarrow> server \<times> string list \<times> string list" where
  "shutdown srv =
     (case shutdown_loop (map fst (transports srv)) (transports srv) [] [] of
        (reg, closed, errors) \<Rightarrow> (srv\<lparr>transports := reg\<rparr>, closed, errors))"

section \<open>Requests, invariants and examples used in the statements\<close>

text \<open>The two token requests of the claims.\<close>

definition authorization_code :: "string \<Rightarrow> token_request" where
  "authorization_code code =
     \<lparr>tok_code = Some code, tok_grant_type = Some ''authorization_code'',
      tok_client_id = None, tok_client_secret = None\<rparr>"

definition client_credentials :: "string option \<Rightarrow> string option \<Rightarrow> token_request" where
  "client_credentials cid secret =
     \<lparr>tok_code = None, tok_grant_type = Some ''client_credentials'',
      tok_client_id = cid, tok_client_secret = secret\<rparr>"


text \<open>
  The session registry as \<^verbatim>\<open>mcpPostHandler\<close> builds it: keys are distinct, and every
  transport is stored under its own, non-empty \<^verbatim>\<open>sessionId\<close> (the id passed to
  \<^verbatim>\<open>onsessioninitialized\<close>).
\<close>

definition registry_wf :: "transport js_object \<Rightarrow> bool" where
  "registry_wf reg \<longleftrightarrow> distinct (map fst reg) \<and>
     list_all (\<lambda>e. fst e \<noteq> [] \<and> sessionId (snd e) = Some (fst e)) reg"

text \<open>An entry that \<^verbatim>\<open>shutdown\<close> leaves in the registry: \<^verbatim>\<open>close\<close> rejected, and the
  \<^verbatim>\<open>onclose\<close> callback did not run.\<close>

definition stays_registered :: "string \<times> transport \<Rightarrow> bool" where
  "stays_registered e \<longleftrightarrow> close_rejects (snd e) \<and> \<not> close_calls_onclose (snd e)"

definition rejecting :: "transport js_object \<Rightarrow> string \<Rightarrow> bool" where
  "rejecting reg k = (case map_of reg k of None \<Rightarrow> False | Some t \<Rightarrow> close_rejects t)"


text \<open>Example data: two results of \<^verbatim>\<open>randomUUID()\<close>, an authorize request, the state after
  \<^verbatim>\<open>GET /oauth/authorize\<close> at time 0 with no password configured, the state after
  \<^verbatim>\<open>POST /oauth/authorize\<close> at time 0 with the right password, five failed attempts, and two
  sessions, the first of which fails to close, with a third whose \<^verbatim>\<open>close\<close> runs the
  \<^verbatim>\<open>onclose\<close> callback and then fails.\<close>

definition example_code :: string where
  "example_code = ''3b241101-e2bb-4255-8caf-4136c566a962''"

definition example_token :: string where
  "example_token = ''9f8e7d6c-5b4a-4392-8171-605f4e3d2c1b''"

definition example_authorize :: authorize_request where
  "example_authorize =
     \<lparr>req_redirect_uri = Some ''https://cb'', req_state = Some ''xyz'',
      req_client_id = Some ''client-1'', req_code_challenge = Some ''abc'',
      req_code_challenge_method = Some ''S256'', req_password = Some ''secret'',
      req_ip = Some ''10.0.0.1'', req_remoteAddress = None\<rparr>"

definition example_issued :: server where
  "example_issued =
     snd (get_oauth_authorize (default_config None) 0 example_code example_authorize empty_server)"

definition example_issued_by_password :: server where
  "example_issued_by_password =
     snd (post_oauth_authorize (default_config (Some ''secret'')) 0 example_code
            example_authorize empty_server)"


definition example_transport :: "string \<Rightarrow> bool \<Rightarrow> transport" where
  "example_transport sid rejects =
     \<lparr>sessionId = Some sid, handleRequest_result = Resolves,
      close_calls_onclose = \<not> rejects, close_rejects = rejects\<rparr>"

definition example_session_id :: string where
  "example_session_id = ''6a0c1f52-7d3e-4b89-9a41-2e5d8c7b3f10''"

definition example_transport_failing_late :: "string \<Rightarrow> transport" where
  "example_transport_failing_late sid =
     \<lparr>sessionId = Some sid, handleRequest_result = Resolves,
      close_calls_onclose = True, close_rejects = True\<rparr>"

definition example_sessions :: server where
  "example_sessions =
     empty_server\<lparr>transports :=
       [(example_code, example_transport example_code True),
        (example_token, example_transport example_token False),
        (example_session_id, example_transport_failing_late example_session_id)]\<rparr>"

section \<open>Properties of the password comparison\<close>

lemma length_Buffer_copy_alloc [simp]:
  "length (Buffer_copy src (Buffer_alloc n)) = n"
  by (simp add: Buffer_copy_def Buffer_alloc_def)

lemma safeComparePasswords_falsy:
  "\<not> truthy provided \<or> \<not> truthy expected \<Longrightarrow>
   safeComparePasswords provided expected = ([], Inr False)"
  by (simp add: safeComparePasswords_def)

lemma safeComparePasswords_same_length:
  "a \<noteq> [] \<Longrightarrow> length a = length b \<Longrightarrow>
   safeComparePasswords (Some a) (Some b) = ([(a, b)], Inr (a = b))"
  by (auto simp: safeComparePasswords_def truthy_def timingSafeEqual_def)

lemma safeComparePasswords_other_length:
  "a \<noteq> [] \<Longrightarrow> b \<noteq> [] \<Longrightarrow> length a \<noteq> length b \<Longrightarrow>
   safeComparePasswords (Some a) (Some b) =
     ([(Buffer_copy a (Buffer_alloc (length b)), b)], Inr False)"
  by (simp add: safeComparePasswords_def truthy_def timingSafeEqual_def Let_def)

lemma safeComparePasswords_result:
  "snd (safeComparePasswords provided expected) =
     Inr (truthy provided \<and> truthy expected \<and> provided = expected)"
proof (cases "truthy provided \<and> truthy expected")
  case False
  then show ?thesis by (auto simp: safeComparePasswords_falsy)
next
  case True
  then obtain a b where ab: "provided = Some a" "expected = Some b" "a \<noteq> []" "b \<noteq> []"
    by (auto simp: truthy_def split: option.splits)
  show ?thesis
  proof (cases "length a = length b")
    case True
    with ab show ?thesis by (simp add: safeComparePasswords_same_length truthy_def)
  next
    case False
    with ab show ?thesis by (auto simp: safeComparePasswords_other_length truthy_def)
  qed
qed

lemma safeComparePasswords_cases:
  "safeComparePasswords provided expected = (calls, r) \<Longrightarrow>
   r = Inr (truthy provided \<and> truthy expected \<and> provided = expected)"
  using safeComparePasswords_result [of provided expected] by simp

text \<open>
  Claim C3. For all string (or undefined) inputs, \<^verbatim>\<open>safeComparePasswords\<close> returns true
  if and only if both are non-empty and byte-for-byte equal. When either input is empty or
  undefined it returns false with no call to \<^verbatim>\<open>timingSafeEqual\<close>. When both are non-empty
  and their lengths differ, it makes exactly one call to \<^verbatim>\<open>timingSafeEqual\<close>, on a buffer
  of the expected length (the provided bytes truncated or zero-padded) and the expected
  buffer, and then returns false. It never throws.
\<close>

theorem safeComparePasswords_correct:
  "snd (safeComparePasswords provided expected) =
     Inr (truthy provided \<and> truthy expected \<and> provided = expected)
   \<and> (\<not> truthy provided \<or> \<not> truthy expected \<longrightarrow>
        safeComparePasswords provided expected = ([], Inr False))
   \<and> (truthy provided \<and> truthy expected \<and> length (the provided) \<noteq> length (the expected) \<longrightarrow>
        (\<exists>padded. safeComparePasswords provided expected = ([(padded, the expected)], Inr False)
           \<and> length padded = length (the expected)
           \<and> padded = take (length (the expected)) (the provided)
                @ replicate (length (the expected) - length (the provided)) (CHR 0x00)))"
proof (intro conjI impI)
  show "snd (safeComparePasswords provided expected) =
     Inr (truthy provided \<and> truthy expected \<and> provided = expected)"
    by (rule safeComparePasswords_result)
next
  assume "\<not> truthy provided \<or> \<not> truthy expected"
  then show "safeComparePasswords provided expected = ([], Inr False)"
    by (rule safeComparePasswords_falsy)
next
  assume h: "truthy provided \<and> truthy expected \<and> length (the provided) \<noteq> length (the expected)"
  then obtain a b where ab: "provided = Some a" "expected = Some b" "a \<noteq> []" "b \<noteq> []"
    by (auto simp: truthy_def split: option.splits)
  with h have len: "length a \<noteq> length b" by simp
  have pad: "Buffer_copy a (Buffer_alloc (length b)) =
      take (length b) a @ replicate (length b - length a) (CHR 0x00)"
    by (simp add: Buffer_copy_def Buffer_alloc_def)
  show "\<exists>padded. safeComparePasswords provided expected = ([(padded, the expected)], Inr False)
           \<and> length padded = length (the expected)
           \<and> padded = take (length (the expected)) (the provided)
                @ replicate (length (the expected) - length (the provided)) (CHR 0x00)"
    using ab len pad safeComparePasswords_other_length [of a b]
    by (intro exI [of _ "Buffer_copy a (Buffer_alloc (length b))"]) simp
qed

theorem safeComparePasswords_correct_witness:
  "safeComparePasswords (Some ''secret'') (Some ''secret'') = ([(''secret'', ''secret'')], Inr True)
   \<and> safeComparePasswords (Some ''wrong'') (Some ''secret'')
       = ([(''wrong'' @ [CHR 0x00], ''secret'')], Inr False)
   \<and> safeComparePasswords (Some ''secrets!'') (Some ''secret'')
       = ([(''secret'', ''secret'')], Inr False)
   \<and> safeComparePasswords None (Some ''secret'') = ([], Inr False)
   \<and> safeComparePasswords (Some '''') (Some ''secret'') = ([], Inr False)"
proof -
  have t: "truthy (Some ''wrong'')" "truthy (Some ''secrets!'')" "truthy (Some ''secret'')"
    "\<not> truthy None" "\<not> truthy (Some '''')"
    by (simp_all add: truthy_def)
  have a: "safeComparePasswords (Some ''secret'') (Some ''secret'') = ([(''secret'', ''secret'')], Inr True)"
    by (simp add: safeComparePasswords_same_length)
  show ?thesis
    using t a
      safeComparePasswords_correct [of "Some ''wrong''" "Some ''secret''"]
      safeComparePasswords_correct [of "Some ''secrets!''" "Some ''secret''"]
      safeComparePasswords_correct [of None "Some ''secret''"]
      safeComparePasswords_correct [of "Some ''''" "Some ''secret''"]
    by simp
qed

section \<open>Properties of objects and generated identifiers\<close>

lemma isUUID_not_inherited: "isUUID s \<Longrightarrow> s \<notin> set objectPrototypeKeys"
  by (auto simp: isUUID_def objectPrototypeKeys_def)

lemma get_property_own: "map_of obj k = Some v \<Longrightarrow> get_property obj k = Own v"
  by (simp add: get_property_def)

lemma update_absent: "map_of al k = None \<Longrightarrow> AList.update k v al = al @ [(k, v)]"
  by (induction al) (auto split: if_splits)

lemma handleClientRegistration_registers:
  "us \<noteq> [] \<Longrightarrow>
   handleClientRegistration now uuid (Some us) name srv =
     (Response 201
        (ClientJson uuid (now div 1000) us (if truthy name then the name else ''Unknown Client'')
           ''none''),
      srv\<lparr>oauthClients := AList.update uuid
        \<lparr>client_id = uuid, client_secret = None, redirect_uris = us,
         client_name = (if truthy name then the name else ''Unknown Client''),
         created_at = now\<rparr> (oauthClients srv)\<rparr>)"
  by (simp add: handleClientRegistration_def Let_def)

lemma handleClientRegistration_rejects:
  "uris = None \<or> uris = Some [] \<Longrightarrow>
   handleClientRegistration now uuid uris name srv =
     (Response 400 (ErrorJson ''invalid_client_metadata'' ''redirect_uris is required''), srv)"
  by (auto simp: handleClientRegistration_def)

section \<open>Properties of the token endpoint\<close>

lemma exchange_own:
  "map_of (authCodes srv) code = Some ac \<Longrightarrow>
   tok_grant_type req = Some ''authorization_code'' \<Longrightarrow> tok_code req = Some code \<Longrightarrow>
   post_oauth_token cfg now uuid req srv =
     (if expires ac < now then invalid_grant else access_token cfg uuid,
      srv\<lparr>authCodes := AList.delete code (authCodes srv)\<rparr>)"
  by (simp add: post_oauth_token_def get_property_own toString_def Let_def)

lemma exchange_absent:
  "map_of (authCodes srv) code = None \<Longrightarrow> code \<notin> set objectPrototypeKeys \<Longrightarrow>
   tok_grant_type req = Some ''authorization_code'' \<Longrightarrow> tok_code req = Some code \<Longrightarrow>
   post_oauth_token cfg now uuid req srv =
     (invalid_grant, srv\<lparr>authCodes := AList.delete code (authCodes srv)\<rparr>)"
  by (simp add: post_oauth_token_def get_property_def toString_def Let_def)

lemma succeeds_simps [simp]:
  "succeeds (access_token cfg uuid)" "\<not> succeeds invalid_grant"
  by (simp_all add: access_token_def invalid_grant_def)

lemma isUUID_example_code: "isUUID example_code"
  by (simp add: isUUID_def isHex_def example_code_def)

lemma example_issued_eq:
  "example_issued = empty_server\<lparr>authCodes :=
     [(example_code, \<lparr>ac_client_id = Some ''client-1'', ac_redirect_uri = Some ''https://cb'',
        code_challenge = None, code_challenge_method = None, expires = 60000\<rparr>)]\<rparr>"
  by (simp add: example_issued_def get_oauth_authorize_def default_config_def truthy_def
      example_authorize_def empty_server_def)

lemma example_tokens: "tok_grant_type (authorization_code c) = Some ''authorization_code''"
  "tok_code (authorization_code c) = Some c"
  by (simp_all add: authorization_code_def)

lemma exchange_expired:
  "map_of (authCodes srv) code = Some ac \<Longrightarrow> expires ac < now \<Longrightarrow>
   tok_grant_type req = Some ''authorization_code'' \<Longrightarrow> tok_code req = Some code \<Longrightarrow>
   post_oauth_token cfg now uuid req srv =
     (invalid_grant, srv\<lparr>authCodes := AList.delete code (authCodes srv)\<rparr>)"
  by (simp add: exchange_own)

text \<open>
  Claim C1. Let a code be a result of \<^verbatim>\<open>randomUUID()\<close> that the authorize step stored in
  \<^verbatim>\<open>authCodes\<close> and that has not expired (\<open>now \<le> expires\<close>) when it is first exchanged,
  and let two \<^verbatim>\<open>authorization_code\<close> exchanges of it follow one another, at any times.
  Exactly one of them succeeds: the first returns the access token and deletes the
  entry, and the second fails with \<^verbatim>\<open>invalid_grant\<close> (HTTP 400). (An expired code is
  outside single use: its exchange is rejected, see \<open>exchange_expired\<close>.)
\<close>

theorem authorization_code_single_use:
  assumes issued: "isUUID code" "map_of (authCodes srv) code = Some ac"
    and unexpired: "now1 \<le> expires ac"
    and req: "tok_grant_type req = Some ''authorization_code''" "tok_code req = Some code"
    and first: "post_oauth_token cfg now1 uuid1 req srv = (r1, srv1)"
    and second: "post_oauth_token cfg now2 uuid2 req srv1 = (r2, srv2)"
  shows "r1 = access_token cfg uuid1 \<and> succeeds r1
    \<and> r2 = invalid_grant \<and> \<not> succeeds r2
    \<and> map_of (authCodes srv1) code = None"
proof -
  from exchange_own [OF issued(2) req, of cfg now1 uuid1] first unexpired
  have r1: "r1 = access_token cfg uuid1"
    and s1: "srv1 = srv\<lparr>authCodes := AList.delete code (authCodes srv)\<rparr>"
    by simp_all
  from s1 have gone: "map_of (authCodes srv1) code = None"
    by (simp add: AList.delete_conv')
  from exchange_absent [OF gone isUUID_not_inherited [OF issued(1)] req, of cfg now2 uuid2] second
  have r2: "r2 = invalid_grant" by simp
  show ?thesis using r1 r2 gone by simp
qed

text \<open>
  A code issued at time 0 (it expires at 60000), exchanged twice at time 60000: the
  first exchange returns the token, the second \<^verbatim>\<open>invalid_grant\<close>.
\<close>

theorem authorization_code_single_use_witness:
  "isUUID example_code
   \<and> fst (post_oauth_token (default_config None) 60000 example_token
           (authorization_code example_code) example_issued)
       = access_token (default_config None) example_token
   \<and> fst (post_oauth_token (default_config None) 60000 example_token
           (authorization_code example_code)
           (snd (post_oauth_token (default_config None) 60000 example_token
                  (authorization_code example_code) example_issued)))
       = invalid_grant"
proof -
  let ?ac = "\<lparr>ac_client_id = Some ''client-1'', ac_redirect_uri = Some ''https://cb'',
        code_challenge = None, code_challenge_method = None, expires = 60000\<rparr>"
  let ?first = "post_oauth_token (default_config None) 60000 example_token
           (authorization_code example_code) example_issued"
  let ?second = "post_oauth_token (default_config None) 60000 example_token
           (authorization_code example_code) (snd ?first)"
  have stored: "map_of (authCodes example_issued) example_code = Some ?ac"
    by (simp add: example_issued_eq)
  have unexpired: "(60000 :: int) \<le> expires ?ac" by simp
  have first: "?first = (fst ?first, snd ?first)" and second: "?second = (fst ?second, snd ?second)"
    by simp_all
  from authorization_code_single_use
    [OF isUUID_example_code stored unexpired example_tokens first second]
  show ?thesis using isUUID_example_code by simp
qed

section \<open>Properties of the authorize endpoints\<close>

lemma get_issue:
  "\<not> truthy (authPassword cfg) \<Longrightarrow>
   map_of (authCodes (snd (get_oauth_authorize cfg T code req srv))) code =
     Some \<lparr>ac_client_id = req_client_id req, ac_redirect_uri = req_redirect_uri req,
           code_challenge = None, code_challenge_method = None, expires = T + 60000\<rparr>"
  by (simp add: get_oauth_authorize_def AList.update_conv')

lemma post_issue:
  assumes "fst (post_oauth_authorize cfg T code req srv) = Redirect url"
  shows "map_of (authCodes (snd (post_oauth_authorize cfg T code req srv))) code =
     Some \<lparr>ac_client_id = req_client_id req, ac_redirect_uri = req_redirect_uri req,
           code_challenge = req_code_challenge req,
           code_challenge_method = req_code_challenge_method req, expires = T + 60000\<rparr>"
  using assms
  by (auto simp: post_oauth_authorize_def post_oauth_authorize_traced_def AList.update_conv'
      dest: safeComparePasswords_cases split: prod.splits if_splits sum.splits)

text \<open>
  Claim C4, as the code has it. A code issued at time \<open>T\<close>, by the auto-approving
  \<^verbatim>\<open>GET /oauth/authorize\<close> or by a successful \<^verbatim>\<open>POST /oauth/authorize\<close>, expires at
  \<open>T + 60000\<close>. Its exchange at a time \<open>now\<close> fails with \<^verbatim>\<open>invalid_grant\<close> exactly when
  \<open>T + 60000 < now\<close>: the check is \<^verbatim>\<open>authCode.expires < Date.now()\<close>, so at the instant
  \<open>T + 60000\<close> itself the exchange still returns the access token.
\<close>

theorem authorization_code_expiry:
  assumes req: "tok_grant_type req = Some ''authorization_code''" "tok_code req = Some code"
    and issued: "(\<not> truthy (authPassword cfg) \<and> srv' = snd (get_oauth_authorize cfg T code areq srv))
      \<or> (fst (post_oauth_authorize cfg T code areq srv) = Redirect (redirect_url areq code)
          \<and> srv' = snd (post_oauth_authorize cfg T code areq srv))"
  shows "fst (post_oauth_token cfg now uuid req srv') =
     (if T + 60000 < now then invalid_grant else access_token cfg uuid)"
proof -
  from issued obtain ac where ac: "map_of (authCodes srv') code = Some ac" "expires ac = T + 60000"
    using get_issue [of cfg T code areq srv] post_issue [of cfg T code areq srv]
    by fastforce
  show ?thesis using exchange_own [OF ac(1) req, of cfg now uuid] ac(2) by simp
qed

theorem authorization_code_expiry_witness:
  "fst (post_oauth_token (default_config None) 60000 example_token
           (authorization_code example_code) example_issued)
       = access_token (default_config None) example_token
   \<and> fst (post_oauth_token (default_config None) 60001 example_token
           (authorization_code example_code) example_issued)
       = invalid_grant
   \<and> fst (post_oauth_token (default_config (Some ''secret'')) 60001 example_token
           (authorization_code example_code) example_issued_by_password)
       = invalid_grant"
proof -
  let ?cfg = "default_config (Some ''secret'')"
  have pw: "\<not> truthy (authPassword (default_config None))"
    by (simp add: default_config_def truthy_def)
  have by_get: "(\<not> truthy (authPassword (default_config None)) \<and> example_issued =
       snd (get_oauth_authorize (default_config None) 0 example_code example_authorize empty_server))
     \<or> (fst (post_oauth_authorize (default_config None) 0 example_code example_authorize empty_server)
          = Redirect (redirect_url example_authorize example_code)
        \<and> example_issued =
          snd (post_oauth_authorize (default_config None) 0 example_code example_authorize empty_server))"
    using pw by (simp add: example_issued_def)
  have "safeComparePasswords (Some ''secret'') (Some ''secret'')
      = ([(''secret'', ''secret'')], Inr True)"
    by (simp add: safeComparePasswords_same_length)
  then have "fst (post_oauth_authorize ?cfg 0 example_code example_authorize empty_server)
      = Redirect (redirect_url example_authorize example_code)"
    by (simp add: post_oauth_authorize_def post_oauth_authorize_traced_def checkRateLimit_def
        clientIp_def truthy_def example_authorize_def empty_server_def default_config_def)
  then have by_post: "(\<not> truthy (authPassword ?cfg) \<and> example_issued_by_password =
       snd (get_oauth_authorize ?cfg 0 example_code example_authorize empty_server))
     \<or> (fst (post_oauth_authorize ?cfg 0 example_code example_authorize empty_server)
          = Redirect (redirect_url example_authorize example_code)
        \<and> example_issued_by_password =
          snd (post_oauth_authorize ?cfg 0 example_code example_authorize empty_server))"
    by (simp add: example_issued_by_password_def)
  from authorization_code_expiry [OF example_tokens by_get, of 60000 example_token]
    authorization_code_expiry [OF example_tokens by_get, of 60001 example_token]
    authorization_code_expiry [OF example_tokens by_post, of 60001 example_token]
  show ?thesis by simp
qed

text \<open>
  A code issued at time 0 and exchanged at time 0 + 60000 is accepted: the exchange at
  the boundary instant does not fail with \<^verbatim>\<open>invalid_grant\<close>.
\<close>

theorem authorization_code_expiry_counterexample:
  "succeeds (fst (post_oauth_token (default_config None) (0 + 60000) example_token
           (authorization_code example_code)
           (snd (get_oauth_authorize (default_config None) 0 example_code example_authorize
                  empty_server))))
   \<and> fst (post_oauth_token (default_config None) (0 + 60000) example_token
           (authorization_code example_code)
           (snd (get_oauth_authorize (default_config None) 0 example_code example_authorize
                  empty_server))) \<noteq> invalid_grant"
proof -
  have "snd (get_oauth_authorize (default_config None) 0 example_code example_authorize
          empty_server) = example_issued"
    by (simp add: example_issued_def)
  then show ?thesis
    by (simp add: example_issued_eq post_oauth_token_def authorization_code_def toString_def
        get_property_def empty_server_def invalid_grant_def access_token_def)
qed

lemma post_oauth_authorize_records_code_challenge:
  "fst (post_oauth_authorize cfg T code req srv) = Redirect url \<Longrightarrow>
   \<exists>ac. map_of (authCodes (snd (post_oauth_authorize cfg T code req srv))) code = Some ac
     \<and> code_challenge ac = req_code_challenge req
     \<and> code_challenge_method ac = req_code_challenge_method req"
  by (simp add: post_issue)

text \<open>
  Claim C6 fails on the auto-approve path. With no password configured, the request
  \<^verbatim>\<open>GET /oauth/authorize\<close> with \<^verbatim>\<open>code_challenge=abc\<close> and
  \<^verbatim>\<open>code_challenge_method=S256\<close> issues a code whose stored entry holds the client id, the
  redirect URI and the expiry only: both PKCE fields are \<^verbatim>\<open>undefined\<close>. The
  password-submission path stores them (the lemma above).
\<close>

theorem get_oauth_authorize_drops_code_challenge:
  "req_code_challenge example_authorize = Some ''abc''
   \<and> req_code_challenge_method example_authorize = Some ''S256''
   \<and> get_oauth_authorize (default_config None) 0 example_code example_authorize empty_server
     = (Redirect ''https://cb?code=3b241101-e2bb-4255-8caf-4136c566a962&state=xyz'',
        empty_server\<lparr>authCodes :=
          [(example_code, \<lparr>ac_client_id = Some ''client-1'', ac_redirect_uri = Some ''https://cb'',
              code_challenge = None, code_challenge_method = None, expires = 60000\<rparr>)]\<rparr>)"
  by (simp add: get_oauth_authorize_def default_config_def truthy_def example_authorize_def
      empty_server_def redirect_url_def toString_def example_code_def)

text \<open>
  What the \<^verbatim>\<open>client_credentials\<close> branch does for a non-empty \<^verbatim>\<open>client_id\<close> whose read
  from \<^verbatim>\<open>oauthClients\<close> is \<^verbatim>\<open>undefined\<close>: it returns a fresh access token and appends
  exactly one client record under that id; a replay with the same id, whatever its
  secret, returns a token again and leaves the registry unchanged.
\<close>

lemma client_credentials_auto_register:
  assumes cid: "c \<noteq> []" "c \<notin> set objectPrototypeKeys"
    and new: "map_of (oauthClients srv) c = None"
    and first: "post_oauth_token cfg now1 uuid1 (client_credentials (Some c) secret1) srv = (r1, srv1)"
    and replay: "post_oauth_token cfg now2 uuid2 (client_credentials (Some c) secret2) srv1 = (r2, srv2)"
  shows "r1 = access_token cfg uuid1 \<and> r2 = access_token cfg uuid2
    \<and> oauthClients srv1 = oauthClients srv @
         [(c, \<lparr>client_id = c, client_secret = secret1, redirect_uris = [],
               client_name = ''Auto-registered Client'', created_at = now1\<rparr>)]
    \<and> length (filter (\<lambda>e. fst e = c) (oauthClients srv1)) = 1
    \<and> srv2 = srv1"
proof -
  have undef: "get_property (oauthClients srv) c = Undefined"
    using cid new by (simp add: get_property_def)
  from first undef cid have r1: "r1 = access_token cfg uuid1"
    and s1: "srv1 = srv\<lparr>oauthClients := AList.update c
       \<lparr>client_id = c, client_secret = secret1, redirect_uris = [],
        client_name = ''Auto-registered Client'', created_at = now1\<rparr> (oauthClients srv)\<rparr>"
    by (simp_all add: post_oauth_token_def client_credentials_def truthy_def toString_def)
  from s1 new have reg: "oauthClients srv1 = oauthClients srv @
         [(c, \<lparr>client_id = c, client_secret = secret1, redirect_uris = [],
               client_name = ''Auto-registered Client'', created_at = now1\<rparr>)]"
    by (simp add: update_absent)
  from new have "filter (\<lambda>e. fst e = c) (oauthClients srv) = []"
    by (auto simp: filter_empty_conv map_of_eq_None_iff)
  with reg have once: "length (filter (\<lambda>e. fst e = c) (oauthClients srv1)) = 1" by simp
  from s1 have "get_property (oauthClients srv1) c \<noteq> Undefined"
    by (simp add: get_property_def AList.update_conv')
  with replay have "r2 = access_token cfg uuid2" "srv2 = srv1"
    by (simp_all add: post_oauth_token_def client_credentials_def toString_def)
  with r1 reg once show ?thesis by simp
qed

lemma client_credentials_auto_register_example:
  "post_oauth_token (default_config None) 5 example_token
      (client_credentials (Some ''machine-1'') (Some ''s1'')) empty_server
     = (access_token (default_config None) example_token,
        empty_server\<lparr>oauthClients :=
          [(''machine-1'', \<lparr>client_id = ''machine-1'', client_secret = Some ''s1'',
              redirect_uris = [], client_name = ''Auto-registered Client'', created_at = 5\<rparr>)]\<rparr>)
   \<and> snd (post_oauth_token (default_config None) 9 example_code
      (client_credentials (Some ''machine-1'') (Some ''other''))
      (snd (post_oauth_token (default_config None) 5 example_token
         (client_credentials (Some ''machine-1'') (Some ''s1'')) empty_server)))
     = empty_server\<lparr>oauthClients :=
          [(''machine-1'', \<lparr>client_id = ''machine-1'', client_secret = Some ''s1'',
              redirect_uris = [], client_name = ''Auto-registered Client'', created_at = 5\<rparr>)]\<rparr>"
proof -
  let ?first = "post_oauth_token (default_config None) 5 example_token
      (client_credentials (Some ''machine-1'') (Some ''s1'')) empty_server"
  let ?replay = "post_oauth_token (default_config None) 9 example_code
      (client_credentials (Some ''machine-1'') (Some ''other'')) (snd ?first)"
  have c: "''machine-1'' \<noteq> []" "''machine-1'' \<notin> set objectPrototypeKeys"
    by (simp_all add: objectPrototypeKeys_def)
  have new: "map_of (oauthClients empty_server) ''machine-1'' = None"
    by (simp add: empty_server_def)
  have first: "?first = (fst ?first, snd ?first)" and replay: "?replay = (fst ?replay, snd ?replay)"
    by simp_all
  have eval: "?first = (access_token (default_config None) example_token,
        empty_server\<lparr>oauthClients :=
          [(''machine-1'', \<lparr>client_id = ''machine-1'', client_secret = Some ''s1'',
              redirect_uris = [], client_name = ''Auto-registered Client'', created_at = 5\<rparr>)]\<rparr>)"
    by (simp add: post_oauth_token_def client_credentials_def truthy_def toString_def
        get_property_def empty_server_def objectPrototypeKeys_def)
  from client_credentials_auto_register [OF c new first replay]
  have "snd ?replay = snd ?first" by simp
  with eval show ?thesis by simp
qed

text \<open>
  An empty \<^verbatim>\<open>client_id\<close> is falsy: the guard \<^verbatim>\<open>client_id && ...\<close> skips the
  registration, as it does for a missing one.
\<close>

lemma client_credentials_empty_client_id:
  "map_of (oauthClients empty_server) '''' = None
   \<and> post_oauth_token (default_config None) 5 example_token
        (client_credentials (Some '''') None) empty_server
      = (access_token (default_config None) example_token, empty_server)
   \<and> map_of (oauthClients (snd (post_oauth_token (default_config None) 5 example_token
        (client_credentials (Some '''') None) empty_server))) '''' = None"
  by (simp add: post_oauth_token_def client_credentials_def truthy_def empty_server_def)

text \<open>
  Claim C5 fails for a \<^verbatim>\<open>client_id\<close> that names a property inherited from
  \<^verbatim>\<open>Object.prototype\<close>. The id \<^verbatim>\<open>constructor\<close> is not empty and no client is registered
  under it, but \<^verbatim>\<open>oauthClients['constructor']\<close> is truthy, so the test
  \<^verbatim>\<open>!oauthClients[client_id]\<close> fails: the request returns an access token and registers
  nothing, on the first call and on every replay.
\<close>

theorem client_credentials_inherited_client_id:
  "''constructor'' \<noteq> []
   \<and> map_of (oauthClients empty_server) ''constructor'' = None
   \<and> post_oauth_token (default_config None) 5 example_token
        (client_credentials (Some ''constructor'') (Some ''s1'')) empty_server
      = (access_token (default_config None) example_token, empty_server)
   \<and> map_of (oauthClients (snd (post_oauth_token (default_config None) 5 example_token
        (client_credentials (Some ''constructor'') (Some ''s1'')) empty_server)))
        ''constructor'' = None"
  by (simp add: post_oauth_token_def client_credentials_def truthy_def toString_def
      get_property_def objectPrototypeKeys_def empty_server_def)

text \<open>
  Claim C10. A \<^verbatim>\<open>client_credentials\<close> request with no \<^verbatim>\<open>client_id\<close> returns HTTP 200 with
  a fresh access token, token type \<^verbatim>\<open>Bearer\<close> and the configured expiry, and leaves the
  whole state, the client registry included, unchanged.
\<close>

theorem client_credentials_without_client_id:
  "post_oauth_token cfg now uuid (client_credentials None secret) srv =
     (Response 200 (TokenJson uuid ''Bearer'' (OAUTH_TOKEN_EXPIRES_IN cfg)), srv)"
  by (simp add: post_oauth_token_def client_credentials_def truthy_def access_token_def)

theorem client_credentials_without_client_id_witness:
  "post_oauth_token (default_config None) 5 example_token (client_credentials None None)
     empty_server
   = (Response 200 (TokenJson example_token ''Bearer'' 604800), empty_server)"
  using client_credentials_without_client_id
    [of "default_config None" 5 example_token None empty_server]
  by (simp add: default_config_def)

section \<open>Properties of the rate limiter\<close>








lemma post_oauth_authorize_wrong_password:
  assumes "checkRateLimit cfg now (clientIp req) (rateLimitState srv) = (None, rl)"
    and "\<not> (truthy (req_password req) \<and> truthy (authPassword cfg)
           \<and> req_password req = authPassword cfg)"
  shows "post_oauth_authorize cfg now uuid req srv =
    (Response 401 (getLoginPage (Some ''Invalid password'') req),
     srv\<lparr>rateLimitState := snd (recordFailedAttempt cfg now (clientIp req) rl)\<rparr>)"
  using assms
  by (auto simp: post_oauth_authorize_def post_oauth_authorize_traced_def truthy_def
      dest: safeComparePasswords_cases split: prod.splits sum.splits)

lemma clearRateLimit_unseen: "map_of rl ip = None \<Longrightarrow> clearRateLimit ip rl = rl"
  by (simp add: clearRateLimit_def map_of_eq_None_iff)



section \<open>Properties of the bearer authentication\<close>

text \<open>
  Claim C8, as the code has it. With the middleware enabled, a request to \<^verbatim>\<open>/mcp\<close> whose
  \<^verbatim>\<open>Authorization\<close> header is missing, empty or does not start with \<^verbatim>\<open>Bearer \<close> is
  answered 401 with the error code \<^verbatim>\<open>unauthorized\<close>; one whose header is \<^verbatim>\<open>Bearer \<close>
  followed by nothing is answered 401 with \<^verbatim>\<open>invalid_token\<close>; in both cases the handler
  does not run. A request with a non-empty token is passed to the handler, whatever the
  token is.
\<close>

theorem bearer_auth_middleware:
  "(\<not> truthy authHeader \<or> \<not> startsWith (the authHeader) ''Bearer '' \<longrightarrow>
      createAuthMiddleware authHeader =
        Rejected (Response 401 (ErrorJson ''unauthorized'' ''Bearer token required''))
      \<and> mcp_route True authHeader handler srv =
        (Reply (Response 401 (ErrorJson ''unauthorized'' ''Bearer token required'')), srv))
   \<and> (authHeader = Some ''Bearer '' \<longrightarrow>
      createAuthMiddleware authHeader =
        Rejected (Response 401 (ErrorJson ''invalid_token'' ''Invalid or expired token''))
      \<and> mcp_route True authHeader handler srv =
        (Reply (Response 401 (ErrorJson ''invalid_token'' ''Invalid or expired token'')), srv))
   \<and> (token \<noteq> [] \<and> authHeader = Some (''Bearer '' @ token) \<longrightarrow>
      createAuthMiddleware authHeader = Next (take 8 token @ ''...'')
      \<and> mcp_route True authHeader handler srv = handler srv)"
  by (auto simp: createAuthMiddleware_def mcp_route_def truthy_def startsWith_def)

theorem bearer_auth_middleware_witness:
  "createAuthMiddleware None
     = Rejected (Response 401 (ErrorJson ''unauthorized'' ''Bearer token required''))
   \<and> createAuthMiddleware (Some ''Basic dXNlcjpwdw=='')
     = Rejected (Response 401 (ErrorJson ''unauthorized'' ''Bearer token required''))
   \<and> createAuthMiddleware (Some ''Bearer '')
     = Rejected (Response 401 (ErrorJson ''invalid_token'' ''Invalid or expired token''))
   \<and> createAuthMiddleware (Some ''Bearer 0123456789'') = Next ''01234567...''"
proof -
  let ?h = "\<lambda>s::server. (Reply internal_error, s)"
  have a: "\<not> truthy None" by (simp add: truthy_def)
  have b: "\<not> startsWith (the (Some ''Basic dXNlcjpwdw=='')) ''Bearer ''"
    by (simp add: startsWith_def)
  have c: "''0123456789'' \<noteq> [] \<and> Some ''Bearer 0123456789'' = Some (''Bearer '' @ ''0123456789'')"
    by simp
  have 1: "createAuthMiddleware None
     = Rejected (Response 401 (ErrorJson ''unauthorized'' ''Bearer token required''))"
    using bearer_auth_middleware [of None ?h empty_server "''x''"] a by blast
  have 2: "createAuthMiddleware (Some ''Basic dXNlcjpwdw=='')
     = Rejected (Response 401 (ErrorJson ''unauthorized'' ''Bearer token required''))"
    using bearer_auth_middleware [of "Some ''Basic dXNlcjpwdw==''" ?h empty_server "''x''"] b
    by blast
  have 3: "createAuthMiddleware (Some ''Bearer '')
     = Rejected (Response 401 (ErrorJson ''invalid_token'' ''Invalid or expired token''))"
    using bearer_auth_middleware [of "Some ''Bearer ''" ?h empty_server "''x''"] by blast
  have 4: "createAuthMiddleware (Some ''Bearer 0123456789'') = Next (take 8 ''0123456789'' @ ''...'')"
    using bearer_auth_middleware [of "Some ''Bearer 0123456789''" ?h empty_server "''0123456789''"] c
    by blast
  from 1 2 3 4 show ?thesis by simp
qed

text \<open>
  The error code for a missing header, and for a header with another scheme, is not
  \<^verbatim>\<open>invalid_request\<close>.
\<close>

theorem bearer_auth_middleware_counterexample:
  "error_code (createAuthMiddleware None) = Some ''unauthorized''
   \<and> error_code (createAuthMiddleware None) \<noteq> Some ''invalid_request''
   \<and> error_code (createAuthMiddleware (Some ''Basic dXNlcjpwdw=='')) \<noteq> Some ''invalid_request''"
  by (simp add: createAuthMiddleware_def truthy_def startsWith_def)

section \<open>Properties of the session handler\<close>

text \<open>
  What \<^verbatim>\<open>mcpPostHandler\<close> does for a session id that is registered, for no session id,
  and for a session id that reads as absent from \<^verbatim>\<open>transports\<close>; and that it keeps the
  registry well-formed.
\<close>

lemma mcpPostHandler_dispatch:
  "(truthy sid \<and> map_of (transports srv) (toString sid) = Some t \<longrightarrow>
      mcpPostHandler newT connect_rejects sid isInitialize srv = (handleRequest t, srv))
   \<and> (\<not> truthy sid \<and> isInitialize \<and> \<not> connect_rejects \<longrightarrow>
      mcpPostHandler newT connect_rejects sid isInitialize srv =
        (handleRequest newT,
         if truthy (sessionId newT)
         then srv\<lparr>transports := AList.update (toString (sessionId newT)) newT (transports srv)\<rparr>
         else srv))
   \<and> ((truthy sid \<and> map_of (transports srv) (toString sid) = None
         \<and> toString sid \<notin> set objectPrototypeKeys)
        \<or> (\<not> truthy sid \<and> \<not> isInitialize) \<longrightarrow>
      mcpPostHandler newT connect_rejects sid isInitialize srv = (Reply no_valid_session, srv))"
  by (auto simp: mcpPostHandler_def get_property_def)

lemma registry_wf_update:
  "registry_wf reg \<Longrightarrow> k \<noteq> [] \<Longrightarrow> sessionId t = Some k \<Longrightarrow> registry_wf (AList.update k t reg)"
  by (induction reg) (auto simp: registry_wf_def AList.dom_update split: if_splits)

lemma mcpPostHandler_registry_wf:
  "registry_wf (transports srv) \<Longrightarrow>
   registry_wf (transports (snd (mcpPostHandler newT connect_rejects sid isInitialize srv)))"
  by (auto simp: mcpPostHandler_def truthy_def toString_def intro: registry_wf_update
      split: property.splits option.splits)

text \<open>
  Claim C7 fails for a session id that names a property inherited from
  \<^verbatim>\<open>Object.prototype\<close>. No session is registered, and the request carries the header
  \<^verbatim>\<open>mcp-session-id: constructor\<close>: \<^verbatim>\<open>transports['constructor']\<close> is truthy, the handler
  takes the branch of an existing session, the call of \<^verbatim>\<open>handleRequest\<close> on that value
  throws, and the response is 500 \<^verbatim>\<open>Internal server error\<close>, not 400.
\<close>

theorem mcpPostHandler_inherited_session_id:
  "get_property (transports empty_server) ''constructor'' = Inherited
   \<and> map_of (transports empty_server) ''constructor'' = None
   \<and> mcpPostHandler (example_transport example_code False) False (Some ''constructor'') False
        empty_server
     = (Reply (Response 500 (JsonRpcError (- 32603) ''Internal server error'')), empty_server)"
  by (simp add: mcpPostHandler_def get_property_def objectPrototypeKeys_def truthy_def
      toString_def empty_server_def internal_error_def)

section \<open>Properties of the shutdown\<close>

lemma delete_filter: "AList.delete k reg = filter (\<lambda>e. fst e \<noteq> k) reg"
  by (induction reg) auto

lemma registry_wf_delete: "registry_wf reg \<Longrightarrow> registry_wf (AList.delete k reg)"
  by (auto simp: registry_wf_def delete_filter list_all_iff distinct_map_filter)

lemma onclose_wf:
  "registry_wf reg \<Longrightarrow> map_of reg k = Some t \<Longrightarrow> onclose t reg = AList.delete k reg"
proof -
  assume wf: "registry_wf reg" and t: "map_of reg k = Some t"
  from t have "(k, t) \<in> set reg" by (rule map_of_SomeD)
  with wf have "k \<noteq> []" "sessionId t = Some k"
    by (auto simp: registry_wf_def list_all_iff)
  with t show ?thesis
    by (simp add: onclose_def truthy_def toString_def get_property_def)
qed

lemma wf_entry:
  "registry_wf reg \<Longrightarrow> map_of reg k = Some t \<Longrightarrow> e \<in> set reg \<Longrightarrow> fst e = k \<Longrightarrow> e = (k, t)"
  by (cases e) (auto simp: registry_wf_def dest: map_of_SomeD eq_key_imp_eq_value)

lemma shutdown_loop_wf:
  "registry_wf reg \<Longrightarrow> distinct ks \<Longrightarrow> set ks \<subseteq> fst ` set reg \<Longrightarrow>
   shutdown_loop ks reg closed errors =
     (filter (\<lambda>e. fst e \<notin> set ks \<or> stays_registered e) reg,
      closed @ ks,
      errors @ filter (rejecting reg) ks)"
proof (induction ks arbitrary: reg closed errors)
  case Nil
  then show ?case by simp
next
  case (Cons k ks)
  from Cons.prems obtain t where t: "map_of reg k = Some t"
    by (force simp: registry_wf_def map_of_eq_None_iff)
  have k: "k \<notin> set ks" "distinct ks" using Cons.prems by simp_all
  have rej: "rejecting reg k = close_rejects t" by (simp add: rejecting_def t)
  show ?case
  proof (cases "stays_registered (k, t)")
    case True
    then have loop: "shutdown_loop (k # ks) reg closed errors =
        shutdown_loop ks reg (closed @ [k]) (errors @ [k])"
      by (simp add: t stays_registered_def)
    have sub: "set ks \<subseteq> fst ` set reg" using Cons.prems by simp
    have keep: "filter (\<lambda>e. fst e \<notin> set ks \<or> stays_registered e) reg =
        filter (\<lambda>e. fst e \<notin> set (k # ks) \<or> stays_registered e) reg"
      using True wf_entry [OF Cons.prems(1) t] by (intro filter_cong) auto
    have "rejecting reg k" using True by (simp add: rej stays_registered_def)
    then show ?thesis
      unfolding loop Cons.IH [OF Cons.prems(1) k(2) sub] keep by simp
  next
    case False
    let ?reg = "AList.delete k reg"
    have wf: "registry_wf ?reg" by (rule registry_wf_delete [OF Cons.prems(1)])
    have loop: "shutdown_loop (k # ks) reg closed errors =
        shutdown_loop ks ?reg (closed @ [k]) (if close_rejects t then errors @ [k] else errors)"
      using False
      by (simp add: t stays_registered_def onclose_wf [OF Cons.prems(1) t] AList.delete_idem)
    have sub: "set ks \<subseteq> fst ` set ?reg"
    proof
      fix x assume x: "x \<in> set ks"
      with Cons.prems(3) obtain e where "e \<in> set reg" "fst e = x" by auto
      moreover from x k have "x \<noteq> k" by auto
      ultimately show "x \<in> fst ` set ?reg" by (force simp: delete_filter)
    qed
    have keep: "filter (\<lambda>e. fst e \<notin> set ks \<or> stays_registered e) ?reg =
        filter (\<lambda>e. fst e \<notin> set (k # ks) \<or> stays_registered e) reg"
      unfolding delete_filter filter_filter
      using False wf_entry [OF Cons.prems(1) t] by (intro filter_cong) auto
    have "\<And>x. x \<in> set ks \<Longrightarrow> map_of ?reg x = map_of reg x"
      using k by (auto simp: AList.delete_conv')
    then have errs: "filter (rejecting ?reg) ks = filter (rejecting reg) ks"
      by (intro filter_cong) (simp_all add: rejecting_def)
    show ?thesis
      unfolding loop Cons.IH [OF wf k(2) sub] keep errs by (simp add: rej)
  qed
qed

lemma rejecting_keys:
  "registry_wf reg \<Longrightarrow>
   filter (rejecting reg) (map fst reg) = map fst (filter (\<lambda>e. close_rejects (snd e)) reg)"
proof -
  assume wf: "registry_wf reg"
  have "\<And>e. e \<in> set reg \<Longrightarrow> rejecting reg (fst e) = close_rejects (snd e)"
    using wf by (auto simp: rejecting_def registry_wf_def)
  then show ?thesis
    by (simp add: filter_map o_def cong: filter_cong)
qed

text \<open>
  Claim C9, as the code has it. On a registry as \<^verbatim>\<open>mcpPostHandler\<close> builds it,
  \<^verbatim>\<open>shutdown\<close> calls \<^verbatim>\<open>close\<close> on the transport of every registered session, in order;
  a failure is logged for that session and the loop goes on. An entry is removed when its
  \<^verbatim>\<open>close\<close> succeeded, and also when its \<^verbatim>\<open>close\<close> failed after running the
  \<^verbatim>\<open>onclose\<close> callback. The entries whose \<^verbatim>\<open>close\<close> failed without running the callback
  are exactly those still in the registry after the loop: nothing clears it.
\<close>

theorem shutdown_closes_all:
  assumes "registry_wf (transports srv)"
  shows "shutdown srv =
     (srv\<lparr>transports := filter stays_registered (transports srv)\<rparr>,
      map fst (transports srv),
      map fst (filter (\<lambda>e. close_rejects (snd e)) (transports srv)))"
proof -
  have d: "distinct (map fst (transports srv))" using assms by (simp add: registry_wf_def)
  have all: "filter (\<lambda>e. fst e \<notin> set (map fst (transports srv)) \<or> stays_registered e)
      (transports srv) = filter stays_registered (transports srv)"
    by (intro filter_cong) auto
  have sub: "set (map fst (transports srv)) \<subseteq> fst ` set (transports srv)" by simp
  show ?thesis
    unfolding shutdown_def shutdown_loop_wf [OF assms d sub] all
    by (simp add: rejecting_keys [OF assms])
qed

text \<open>
  Three sessions: the first fails to close, the second closes, the third fails after
  its \<^verbatim>\<open>onclose\<close> callback ran. All three are closed, two errors are logged, and the first
  alone stays registered.
\<close>

theorem shutdown_closes_all_witness:
  "shutdown example_sessions =
     (empty_server\<lparr>transports := [(example_code, example_transport example_code True)]\<rparr>,
      [example_code, example_token, example_session_id], [example_code, example_session_id])"
proof -
  have ne: "example_code \<noteq> example_token" "example_code \<noteq> example_session_id"
    "example_token \<noteq> example_session_id"
    "example_code \<noteq> []" "example_token \<noteq> []" "example_session_id \<noteq> []"
    by (simp_all add: example_code_def example_token_def example_session_id_def)
  then have wf: "registry_wf (transports example_sessions)"
    by (simp add: registry_wf_def example_sessions_def example_transport_def
        example_transport_failing_late_def)
  from shutdown_closes_all [OF wf] show ?thesis
    by (simp add: example_sessions_def example_transport_def example_transport_failing_late_def
        stays_registered_def empty_server_def)
qed

text \<open>
  The same three sessions: after the shutdown the registry is not empty, it still
  contains the first.
\<close>

theorem shutdown_closes_all_counterexample:
  "transports (fst (shutdown example_sessions))
     = [(example_code, example_transport example_code True)]
   \<and> transports (fst (shutdown example_sessions)) \<noteq> []"
proof -
  have ne: "example_code \<noteq> example_token" "example_code \<noteq> example_session_id"
    "example_token \<noteq> example_session_id" "example_token \<noteq> []" "example_session_id \<noteq> []"
    by (simp_all add: example_code_def example_token_def example_session_id_def)
  then show ?thesis
    by (simp add: shutdown_def example_sessions_def example_transport_def
        example_transport_failing_late_def onclose_def truthy_def toString_def
        get_property_def Let_def)
qed

end
